theory Spec2Isabelle
  imports Complex_Main
begin

section \<open>Data model\<close>

text \<open>
  The entity of \<^verbatim>\<open>sponsor-contribution.entity.ts\<close>, the result and the operation types of
  \<^verbatim>\<open>contributions.service.ts\<close>. Identifiers are strings (uuid text). A
  \<^verbatim>\<open>decimal(18,7)\<close> column is carried as its decimal text, the value \<^verbatim>\<open>String(x)\<close> of
  the field; the service only ever copies it or hands it to \<^verbatim>\<open>parseFloat(String(x))\<close>.
\<close>

datatype ContributionStatus = PENDING | CONFIRMED | FAILED

type_synonym decimal = string

text \<open>
  Modelled from the spec: the entity \<^verbatim>\<open>SponsorTier\<close>, whose declaration
  (\<^verbatim>\<open>sponsor-tier.entity.ts\<close>) is not among the sources: identifier, name, price
  (fixed-point decimal, 7 fractional digits), maximum sponsor count. These are the four
  fields the service reads.
\<close>

record SponsorTier =
  tier_id :: string
  name :: string
  price :: decimal
  maxSponsors :: int

record SponsorContribution =
  id_c :: string
  sponsorId :: string
  tierId :: string
  amount :: decimal
  transactionHash :: "string option"
  status :: ContributionStatus
  createdAt :: nat

record ContributionIntent =
  contributionId :: string
  intent_escrowWallet :: string
  intent_amount :: decimal
  currency :: string
  intent_memo :: string

record PaymentOp =
  op_type :: string
  op_to :: string
  op_amount :: string
  asset_type :: string
  asset_code :: "string option"

text \<open>
  A JavaScript number is a rational or \<^verbatim>\<open>NaN\<close> (every finite double is a rational;
  rounding and the infinities are left out). A comparison with \<^verbatim>\<open>NaN\<close> is false.
\<close>

datatype jsnum = NaN | Num rat

fun jsSub :: "jsnum \<Rightarrow> jsnum \<Rightarrow> jsnum" where
  "jsSub (Num a) (Num b) = Num (a - b)"
| "jsSub _ _ = NaN"

fun jsAbs :: "jsnum \<Rightarrow> jsnum" where
  "jsAbs (Num a) = Num \<bar>a\<bar>"
| "jsAbs NaN = NaN"

fun jsGt :: "jsnum \<Rightarrow> jsnum \<Rightarrow> bool" where
  "jsGt (Num a) (Num b) = (a > b)"
| "jsGt _ _ = False"

text \<open>
  Modelled from the spec: the kinds of audit event (the enum \<^verbatim>\<open>AuditAction\<close> of
  \<^verbatim>\<open>audit-log.entity.ts\<close>, not among the sources); the three the service records are
  ``payment intent created'', ``payment confirmed'' and ``payment failed''. An entry is the
  object the service passes to \<^verbatim>\<open>auditService.log\<close>, with the \<^verbatim>\<open>meta\<close> of each kind.
\<close>

datatype AuditAction = PAYMENT_INTENT_CREATED | PAYMENT_CONFIRMED | PAYMENT_FAILED

datatype AuditMeta =
    IntentMeta string decimal string
  | ConfirmedMeta string string decimal
  | FailedMeta string

record AuditEntry =
  action :: AuditAction
  userId :: string
  resourceId :: string
  meta :: AuditMeta

text \<open>The exceptions of the service; each carries its message.\<close>

datatype error =
    BadRequestException string
  | NotFoundException string
  | ConflictException string
  | TypeError

text \<open>
  The persistent state: the two repositories and the audit trail. Rows are kept in
  insertion order. The lines the service writes to its \<^verbatim>\<open>Logger\<close> are not state and
  are left out.
\<close>

record store =
  tiers :: "SponsorTier list"
  contributions :: "SponsorContribution list"
  audit :: "AuditEntry list"

text \<open>
  What the ledger network answers. \<^verbatim>\<open>memo\<close> is any JavaScript value: undefined, a
  string, or something that is not a string. A fetch either rejects (\<open>None\<close>) or gives a
  response with its \<^verbatim>\<open>ok\<close> flag and its body; the body is \<open>None\<close> when
  \<^verbatim>\<open>res.json()\<close> rejects or has no \<^verbatim>\<open>_embedded.records\<close>.
\<close>

datatype memoField = MemoUndefined | MemoString string | MemoNonString

record txRecord =
  memo :: memoField
  operationsHref :: "string option"

record response =
  ok :: bool
  json :: "PaymentOp list option"

text \<open>
  Everything one invocation reads from outside the store: the configured escrow wallet,
  the ledger client (\<open>None\<close> from \<open>getTransaction\<close>: the call throws), \<^verbatim>\<open>fetch\<close>, the
  language's \<^verbatim>\<open>parseFloat\<close> and number formatting, and the values the database
  generates for a new row (\<^verbatim>\<open>PrimaryGeneratedColumn('uuid')\<close>,
  \<^verbatim>\<open>CreateDateColumn\<close>).
\<close>

record env =
  escrowWallet :: string
  getTransaction :: "string \<Rightarrow> txRecord option"
  fetch :: "string \<Rightarrow> response option"
  parseFloat :: "string \<Rightarrow> jsnum"
  numberToString :: "jsnum \<Rightarrow> string"
  generatedId :: string
  now :: nat

section \<open>Repository operations\<close>

definition SUPPORTED_ASSETS :: "string list" where
  "SUPPORTED_ASSETS = [''XLM'', ''USDC'']"

text \<open>\<^verbatim>\<open>toUpperCase\<close> on ASCII text.\<close>

definition upperChar :: "char \<Rightarrow> char" where
  "upperChar c =
     (let n = (of_char c :: nat) in if 97 \<le> n \<and> n \<le> 122 then char_of (n - 32) else c)"

definition toUpperCase :: "string \<Rightarrow> string" where
  "toUpperCase s = map upperChar s"

text \<open>\<^verbatim>\<open>tierRepository.findOne({ where: { id } })\<close>\<close>

definition findTier :: "store \<Rightarrow> string \<Rightarrow> SponsorTier option" where
  "findTier s i = find (\<lambda>t. tier_id t = i) (tiers s)"

text \<open>
  \<^verbatim>\<open>contributionRepository.findOne({ where: { id, status: PENDING }, relations: ['tier'] })\<close>:
  the row together with the tier its \<^verbatim>\<open>tierId\<close> joins to.
\<close>

definition findOnePending :: "store \<Rightarrow> string \<Rightarrow> (SponsorContribution \<times> SponsorTier option) option" where
  "findOnePending s m =
     (case find (\<lambda>c. id_c c = m \<and> status c = PENDING) (contributions s) of
        None \<Rightarrow> None
      | Some c \<Rightarrow> Some (c, findTier s (tierId c)))"

text \<open>
  The query of \<^verbatim>\<open>assertCapacityAvailable\<close>: confirmed rows of the tier, without the
  row \<open>excludeId\<close> when one is given and truthy (a non-empty string).
\<close>

definition confirmedCount :: "store \<Rightarrow> string \<Rightarrow> string option \<Rightarrow> nat" where
  "confirmedCount s tid excludeId =
     length (filter (\<lambda>c. tierId c = tid \<and> status c = CONFIRMED \<and>
                (case excludeId of None \<Rightarrow> True
                 | Some x \<Rightarrow> (if x \<noteq> [] then id_c c \<noteq> x else True)))
             (contributions s))"

text \<open>
  \<^verbatim>\<open>repository.save\<close> of an entity that has an identifier writes the row with that
  identifier (and inserts it when there is none).
\<close>

definition save :: "store \<Rightarrow> SponsorContribution \<Rightarrow> store" where
  "save s c =
     (if id_c c \<in> set (map id_c (contributions s))
      then s\<lparr>contributions := map (\<lambda>r. if id_c r = id_c c then c else r) (contributions s)\<rparr>
      else s\<lparr>contributions := contributions s @ [c]\<rparr>)"

text \<open>
  Modelled from the spec: \<^verbatim>\<open>auditService.log\<close> (\<^verbatim>\<open>audit.service.ts\<close> is not among the
  sources) appends an immutable audit event.
\<close>

definition auditLog :: "store \<Rightarrow> AuditEntry \<Rightarrow> store" where
  "auditLog s e = s\<lparr>audit := audit s @ [e]\<rparr>"

section \<open>The service\<close>

definition getTierById :: "store \<Rightarrow> string \<Rightarrow> error + SponsorTier" where
  "getTierById s i =
     (case findTier s i of
        None \<Rightarrow> Inl (NotFoundException (''Sponsor tier \"'' @ i @ ''\" not found.''))
      | Some tier \<Rightarrow> Inr tier)"

definition assertCapacityAvailable :: "env \<Rightarrow> store \<Rightarrow> SponsorTier \<Rightarrow> string option \<Rightarrow> error + unit" where
  "assertCapacityAvailable e s tier excludeId =
     (if int (confirmedCount s (tier_id tier) excludeId) \<ge> maxSponsors tier
      then Inl (ConflictException
             (''Sponsor tier \"'' @ name tier @ ''\" is full ('' @
              numberToString e (Num (of_int (maxSponsors tier))) @ ''/'' @
              numberToString e (Num (of_int (maxSponsors tier))) @ '' spots taken).''))
      else Inr ())"

definition resolvePaymentOperations :: "env \<Rightarrow> txRecord \<Rightarrow> PaymentOp list" where
  "resolvePaymentOperations e txr =
     (case operationsHref txr of
        None \<Rightarrow> []
      | Some opsHref \<Rightarrow>
          if opsHref = [] then []
          else (case fetch e opsHref of
                  None \<Rightarrow> []
                | Some res \<Rightarrow>
                    if \<not> ok res then []
                    else (case json res of
                            None \<Rightarrow> []
                          | Some records \<Rightarrow>
                              filter (\<lambda>op. op_type op = ''payment'' \<or> op_type op = ''create_account'')
                                records)))"

definition markFailed :: "store \<Rightarrow> SponsorContribution \<Rightarrow> string \<Rightarrow> store" where
  "markFailed s contribution reason =
     (let contribution' = contribution\<lparr>status := FAILED\<rparr>;
          s' = save s contribution'
      in auditLog s' \<lparr>action = PAYMENT_FAILED, userId = sponsorId contribution',
                      resourceId = id_c contribution', meta = FailedMeta reason\<rparr>)"

subsection \<open>Step 1: create contribution intent\<close>

definition createIntent :: "env \<Rightarrow> store \<Rightarrow> string \<Rightarrow> string \<Rightarrow> (error + ContributionIntent) \<times> store" where
  "createIntent e s tid sid =
     (case getTierById s tid of
        Inl err \<Rightarrow> (Inl err, s)
      | Inr tier \<Rightarrow>
          let resolvedCurrency = ''XLM'' in
          (case assertCapacityAvailable e s tier None of
             Inl err \<Rightarrow> (Inl err, s)
           | Inr _ \<Rightarrow>
               let saved = \<lparr>id_c = generatedId e, sponsorId = sid, tierId = tid,
                             amount = price tier, transactionHash = None,
                             status = PENDING, createdAt = now e\<rparr>;
                   s1 = s\<lparr>contributions := contributions s @ [saved]\<rparr>;
                   s2 = auditLog s1 \<lparr>action = PAYMENT_INTENT_CREATED, userId = sid,
                          resourceId = id_c saved,
                          meta = IntentMeta tid (price tier) resolvedCurrency\<rparr>
               in (Inr \<lparr>contributionId = id_c saved, intent_escrowWallet = escrowWallet e,
                        intent_amount = price tier, currency = resolvedCurrency,
                        intent_memo = id_c saved\<rparr>, s2)))"

subsection \<open>Step 2: confirm contribution\<close>

text \<open>
  \<^verbatim>\<open>confirmContribution\<close> is written in the three parts its numbered steps fall into:
  steps 1 to 6 read the ledger and the store and validate the payment, step 7 is the
  capacity re-check, step 8 the commit.
\<close>

text \<open>Step 2 of the source: the memo when it is a string, undefined otherwise.\<close>

definition memoValue :: "txRecord \<Rightarrow> string option" where
  "memoValue txr = (case memo txr of MemoString m \<Rightarrow> Some m | _ \<Rightarrow> None)"

definition memoMissing :: string where
  "memoMissing = ''Transaction memo is missing. Cannot correlate with a contribution intent.''"

definition amountEpsilon :: rat where
  "amountEpsilon = 1 / 10000000"

text \<open>
  Steps 5 and 6 on the matching operation: \<open>Some\<close> of the exception and the store after
  \<^verbatim>\<open>markFailed\<close> when a check fails, \<open>None\<close> when both pass.
\<close>

definition validateOperation ::
  "env \<Rightarrow> store \<Rightarrow> SponsorContribution \<Rightarrow> PaymentOp \<Rightarrow> (error \<times> store) option" where
  "validateOperation e s contribution matchingOp =
     (let assetCode = (if asset_type matchingOp = ''native'' then ''XLM''
                       else (case asset_code matchingOp of None \<Rightarrow> [] | Some a \<Rightarrow> a))
      in if toUpperCase assetCode \<notin> set SUPPORTED_ASSETS
         then Some (BadRequestException (''Asset \"'' @ assetCode @ ''\" is not supported.''),
                    markFailed s contribution (''Unsupported asset \"'' @ assetCode @ ''\".''))
         else
           let onChainAmount = parseFloat e (op_amount matchingOp);
               expectedAmount = parseFloat e (amount contribution)
           in if jsGt (jsAbs (jsSub onChainAmount expectedAmount)) (Num amountEpsilon)
              then Some (BadRequestException
                      (''Incorrect contribution amount. Expected '' @ numberToString e expectedAmount @
                       '', received '' @ numberToString e onChainAmount @ ''.''),
                    markFailed s contribution
                      (''Incorrect amount. Expected '' @ numberToString e expectedAmount @
                       '', got '' @ numberToString e onChainAmount @ ''.''))
              else None)"

text \<open>
  Steps 1 to 6: \<open>Inl\<close> of the exception raised and the store it leaves, or \<open>Inr\<close> of the
  pending contribution and its tier when every validation passed.
\<close>

definition validateTransaction ::
  "env \<Rightarrow> store \<Rightarrow> string \<Rightarrow> (error \<times> store) + (SponsorContribution \<times> SponsorTier option)" where
  "validateTransaction e s h =
     (case getTransaction e h of
        None \<Rightarrow> Inl (BadRequestException
                   (''Transaction \"'' @ h @ ''\" not found on the Stellar network.''), s)
      | Some txr \<Rightarrow>
          (case memoValue txr of
             None \<Rightarrow> Inl (BadRequestException memoMissing, s)
           | Some m \<Rightarrow>
               if m = [] then Inl (BadRequestException memoMissing, s)
               else
                 (case findOnePending s m of
                    None \<Rightarrow> Inl (NotFoundException
                               (''No pending contribution found for memo \"'' @ m @ ''\".''), s)
                  | Some (contribution, tier) \<Rightarrow>
                      let ops = resolvePaymentOperations e txr in
                      if ops = []
                      then Inl (BadRequestException ''Transaction contains no payment operations.'',
                                markFailed s contribution ''No payment operations in transaction.'')
                      else
                        (case find (\<lambda>op. op_to op = escrowWallet e) ops of
                           None \<Rightarrow>
                             Inl (BadRequestException
                                    ''Payment destination does not match the escrow wallet.'',
                                  markFailed s contribution
                                    (''Incorrect destination. Expected '' @ escrowWallet e @ ''.''))
                         | Some matchingOp \<Rightarrow>
                             (case validateOperation e s contribution matchingOp of
                                Some failure \<Rightarrow> Inl failure
                              | None \<Rightarrow> Inr (contribution, tier))))))"

text \<open>
  Step 7: \<^verbatim>\<open>assertCapacityAvailable(contribution.tier, contribution.id)\<close>. Reading
  \<^verbatim>\<open>tier.id\<close> of a relation that did not load is a \<^verbatim>\<open>TypeError\<close>.
\<close>

definition recheckCapacity ::
  "env \<Rightarrow> store \<Rightarrow> SponsorContribution \<Rightarrow> SponsorTier option \<Rightarrow> error + unit" where
  "recheckCapacity e s contribution tier =
     (case tier of
        None \<Rightarrow> Inl TypeError
      | Some t \<Rightarrow> assertCapacityAvailable e s t (Some (id_c contribution)))"

text \<open>Step 8: set the hash and the status, save, record the audit event.\<close>

definition commitConfirmed :: "store \<Rightarrow> SponsorContribution \<Rightarrow> string \<Rightarrow> SponsorContribution \<times> store" where
  "commitConfirmed s contribution h =
     (let confirmed = contribution\<lparr>transactionHash := Some h, status := CONFIRMED\<rparr>;
          s1 = save s confirmed;
          s2 = auditLog s1 \<lparr>action = PAYMENT_CONFIRMED, userId = sponsorId confirmed,
                 resourceId = id_c confirmed,
                 meta = ConfirmedMeta h (tierId confirmed) (amount confirmed)\<rparr>
      in (confirmed, s2))"

definition recheckAndCommit ::
  "env \<Rightarrow> store \<Rightarrow> SponsorContribution \<Rightarrow> SponsorTier option \<Rightarrow> string \<Rightarrow> (error + SponsorContribution) \<times> store" where
  "recheckAndCommit e s contribution tier h =
     (case recheckCapacity e s contribution tier of
        Inl err \<Rightarrow> (Inl err, s)
      | Inr _ \<Rightarrow> (case commitConfirmed s contribution h of (c, s') \<Rightarrow> (Inr c, s')))"

definition confirmContribution :: "env \<Rightarrow> store \<Rightarrow> string \<Rightarrow> (error + SponsorContribution) \<times> store" where
  "confirmContribution e s h =
     (case validateTransaction e s h of
        Inl (err, s') \<Rightarrow> (Inl err, s')
      | Inr (contribution, tier) \<Rightarrow> recheckAndCommit e s contribution tier h)"

section \<open>Overlapping invocations\<close>

text \<open>
  Each \<^verbatim>\<open>await\<close> on the store is a point where another request may run. An invocation
  of \<^verbatim>\<open>confirmContribution\<close> in flight is at one of these points: not started, validated
  (before the count of step 7), checked (before the save of step 8), or finished. A
  schedule names, step by step, which invocation runs next.
\<close>

datatype task =
    Start string
  | Validated SponsorContribution "SponsorTier option" string
  | Checked SponsorContribution string
  | Finished "error + SponsorContribution"

fun stepTask :: "env \<Rightarrow> task \<Rightarrow> store \<Rightarrow> task \<times> store" where
  "stepTask e (Start h) s =
     (case validateTransaction e s h of
        Inl (err, s') \<Rightarrow> (Finished (Inl err), s')
      | Inr (c, tier) \<Rightarrow> (Validated c tier h, s))"
| "stepTask e (Validated c tier h) s =
     (case recheckCapacity e s c tier of
        Inl err \<Rightarrow> (Finished (Inl err), s)
      | Inr _ \<Rightarrow> (Checked c h, s))"
| "stepTask e (Checked c h) s =
     (case commitConfirmed s c h of (c', s') \<Rightarrow> (Finished (Inr c'), s'))"
| "stepTask e (Finished r) s = (Finished r, s)"

fun runSchedule :: "env \<Rightarrow> nat list \<Rightarrow> task list \<times> store \<Rightarrow> task list \<times> store" where
  "runSchedule e [] cfg = cfg"
| "runSchedule e (i # sched) (ts, s) =
     (if i < length ts
      then (case stepTask e (ts ! i) s of (t', s') \<Rightarrow> runSchedule e sched (ts[i := t'], s'))
      else runSchedule e sched (ts, s))"

text \<open>
  The stores that completed invocations, one after the other, can produce from a store
  without contributions. The database hands a new row an identifier no row has.
\<close>

inductive reachable :: "store \<Rightarrow> bool" where
  reachable_init: "contributions s = [] \<Longrightarrow> reachable s"
| reachable_intent:
    "reachable s \<Longrightarrow> generatedId e \<notin> set (map id_c (contributions s)) \<Longrightarrow>
     reachable (snd (createIntent e s tid sid))"
| reachable_confirm: "reachable s \<Longrightarrow> reachable (snd (confirmContribution e s h))"

section \<open>Postconditions and invariants\<close>

text \<open>
  The store \<open>s'\<close> records contribution \<open>c\<close> as failed: its row has become \<open>c\<close> with status
  \<open>FAILED\<close> and nothing else changed in it, and the last audit event is the failure with
  its reason.
\<close>

definition recordedFailed :: "store \<Rightarrow> SponsorContribution \<Rightarrow> string \<Rightarrow> bool" where
  "recordedFailed s' c reason \<longleftrightarrow>
     c\<lparr>status := FAILED\<rparr> \<in> set (contributions s') \<and>
     (\<forall>r \<in> set (contributions s'). id_c r = id_c c \<longrightarrow> r = c\<lparr>status := FAILED\<rparr>) \<and>
     audit s' \<noteq> [] \<and>
     last (audit s') = \<lparr>action = PAYMENT_FAILED, userId = sponsorId c, resourceId = id_c c,
                          meta = FailedMeta reason\<rparr>"

text \<open>
  The invariant of the stores the service produces: identifiers are unique (the primary
  key), and only confirmed contributions carry a transaction hash.
\<close>

definition storeInv :: "store \<Rightarrow> bool" where
  "storeInv s \<longleftrightarrow> distinct (map id_c (contributions s)) \<and>
     (\<forall>c \<in> set (contributions s). transactionHash c \<noteq> None \<longrightarrow> status c = CONFIRMED)"

section \<open>A ledger and stores for the examples\<close>

text \<open>
  One tier with a single slot, an escrow wallet, and the answers of the ledger for a few
  transactions: an exact payment, one that is off by \<open>1e-6\<close>, one that is off by \<open>1e-8\<close>,
  one with three payment operations, one without a link to its operations, one with an
  empty memo. \<open>parseAmount\<close> and \<open>renderNumber\<close> give \<^verbatim>\<open>parseFloat\<close> and the number
  formatting on the texts that occur.
\<close>

definition goldTier :: SponsorTier where
  "goldTier = \<lparr>tier_id = ''tier-1'', name = ''Gold'', price = ''100.0000000'', maxSponsors = 1\<rparr>"

definition emptyStore :: store where
  "emptyStore = \<lparr>tiers = [goldTier], contributions = [], audit = []\<rparr>"

definition paymentTo :: "string \<Rightarrow> string \<Rightarrow> PaymentOp" where
  "paymentTo dest amt = \<lparr>op_type = ''payment'', op_to = dest, op_amount = amt,
      asset_type = ''native'', asset_code = None\<rparr>"

definition txFor :: "string \<Rightarrow> string option \<Rightarrow> txRecord" where
  "txFor m href = \<lparr>memo = MemoString m, operationsHref = href\<rparr>"

definition ledger :: "string \<Rightarrow> txRecord option" where
  "ledger h =
     (if h = ''tx-1'' then Some (txFor ''c-1'' (Some ''ops-exact''))
      else if h = ''tx-2'' then Some (txFor ''c-2'' (Some ''ops-exact''))
      else if h = ''tx-blank'' then Some (txFor [] (Some ''ops-exact''))
      else if h = ''tx-nolink'' then Some (txFor ''c-1'' None)
      else if h = ''tx-far'' then Some (txFor ''c-1'' (Some ''ops-far''))
      else if h = ''tx-near'' then Some (txFor ''c-1'' (Some ''ops-near''))
      else if h = ''tx-multi'' then Some (txFor ''c-1'' (Some ''ops-multi''))
      else None)"

definition horizon :: "string \<Rightarrow> response option" where
  "horizon href =
     (if href = ''ops-exact'' then Some \<lparr>ok = True, json = Some [paymentTo ''GESCROW'' ''100.0000000'']\<rparr>
      else if href = ''ops-far'' then Some \<lparr>ok = True, json = Some [paymentTo ''GESCROW'' ''100.0000010'']\<rparr>
      else if href = ''ops-near'' then Some \<lparr>ok = True, json = Some [paymentTo ''GESCROW'' ''100.00000001'']\<rparr>
      else if href = ''ops-multi'' then
        Some \<lparr>ok = True, json = Some [paymentTo ''GOTHER'' ''100.0000000'',
                                       paymentTo ''GESCROW'' ''100.0000000'',
                                       paymentTo ''GESCROW'' ''999.0000000'']\<rparr>
      else None)"

definition parseAmount :: "string \<Rightarrow> jsnum" where
  "parseAmount t =
     (if t = ''100.0000000'' then Num 100
      else if t = ''100.0000010'' then Num (100 + 1 / 10 ^ 6)
      else if t = ''100.00000001'' then Num (100 + 1 / 10 ^ 8)
      else if t = ''999.0000000'' then Num 999
      else NaN)"

definition renderNumber :: "jsnum \<Rightarrow> string" where
  "renderNumber n =
     (case n of
        NaN \<Rightarrow> ''NaN''
      | Num r \<Rightarrow> if r = 1 then ''1'' else if r = 100 then ''100''
                 else if r = 100 + 1 / 10 ^ 6 then ''100.000001''
                 else if r = 100 + 1 / 10 ^ 8 then ''100.00000001''
                 else if r = 999 then ''999'' else [])"

definition ledgerEnv :: env where
  "ledgerEnv = \<lparr>escrowWallet = ''GESCROW'', getTransaction = ledger, fetch = horizon,
     parseFloat = parseAmount, numberToString = renderNumber, generatedId = ''c-1'', now = 0\<rparr>"

definition pendingOf :: "string \<Rightarrow> string \<Rightarrow> SponsorContribution" where
  "pendingOf i sp = \<lparr>id_c = i, sponsorId = sp, tierId = ''tier-1'', amount = ''100.0000000'',
      transactionHash = None, status = PENDING, createdAt = 0\<rparr>"

definition intentAudit :: "string \<Rightarrow> string \<Rightarrow> AuditEntry" where
  "intentAudit i sp = \<lparr>action = PAYMENT_INTENT_CREATED, userId = sp, resourceId = i,
      meta = IntentMeta ''tier-1'' ''100.0000000'' ''XLM''\<rparr>"

definition pendingStore :: store where
  "pendingStore = \<lparr>tiers = [goldTier], contributions = [pendingOf ''c-1'' ''alice''],
       audit = [intentAudit ''c-1'' ''alice'']\<rparr>"

definition raceStore :: store where
  "raceStore = \<lparr>tiers = [goldTier],
       contributions = [pendingOf ''c-1'' ''alice'', pendingOf ''c-2'' ''bob''],
       audit = [intentAudit ''c-1'' ''alice'', intentAudit ''c-2'' ''bob'']\<rparr>"

definition fullStore :: store where
  "fullStore = \<lparr>tiers = [goldTier],
       contributions = [pendingOf ''c-1'' ''alice'',
                        (pendingOf ''c-2'' ''bob'')\<lparr>transactionHash := Some ''tx-2'', status := CONFIRMED\<rparr>],
       audit = []\<rparr>"

definition repricedStore :: store where
  "repricedStore = \<lparr>tiers = [goldTier\<lparr>price := ''250.0000000''\<rparr>],
       contributions = [pendingOf ''c-1'' ''alice''], audit = []\<rparr>"

section \<open>Evaluation rules\<close>

lemmas scen = goldTier_def emptyStore_def paymentTo_def txFor_def ledger_def horizon_def parseAmount_def
  renderNumber_def ledgerEnv_def pendingOf_def intentAudit_def pendingStore_def raceStore_def
  fullStore_def repricedStore_def
lemmas svc = createIntent_def getTierById_def findTier_def assertCapacityAvailable_def confirmedCount_def
   auditLog_def save_def markFailed_def validateTransaction_def validateOperation_def memoValue_def
   findOnePending_def resolvePaymentOperations_def recheckCapacity_def commitConfirmed_def recheckAndCommit_def
   confirmContribution_def SUPPORTED_ASSETS_def toUpperCase_def upperChar_def amountEpsilon_def memoMissing_def Let_def

section \<open>Properties\<close>

subsection \<open>Lookups and counts\<close>

lemma findTier_Some: "findTier s i = Some t \<Longrightarrow> tier_id t = i \<and> t \<in> set (tiers s)"
  by (auto simp: findTier_def find_Some_iff)

lemma findOnePending_Some:
  "findOnePending s m = Some (c, t) \<Longrightarrow>
     c \<in> set (contributions s) \<and> id_c c = m \<and> status c = PENDING \<and> t = findTier s (tierId c)"
  by (auto simp: findOnePending_def find_Some_iff split: option.splits)

lemma findOnePending_None:
  "findOnePending s m = None \<longleftrightarrow> \<not> (\<exists>c \<in> set (contributions s). id_c c = m \<and> status c = PENDING)"
  by (auto simp: findOnePending_def find_None_iff find_Some_iff split: option.splits)

lemma confirmedCount_None:
  "confirmedCount s tid None = length (filter (\<lambda>c. tierId c = tid \<and> status c = CONFIRMED) (contributions s))"
  by (simp add: confirmedCount_def)

lemma confirmedCount_Some:
  "x \<noteq> [] \<Longrightarrow> confirmedCount s tid (Some x) =
     length (filter (\<lambda>c. tierId c = tid \<and> status c = CONFIRMED \<and> id_c c \<noteq> x) (contributions s))"
  by (simp add: confirmedCount_def)

subsection \<open>Intent creation\<close>

text \<open>
  Claim C3: for a tier whose confirmed contributions number at least its \<open>maxSponsors\<close>,
  \<^verbatim>\<open>createIntent\<close> fails with Conflict and the store is returned as it was: no
  contribution row and no audit event is added.
\<close>

theorem createIntent_at_capacity:
  assumes "findTier s tid = Some tier"
      and "maxSponsors tier \<le> int (length (filter (\<lambda>c. tierId c = tier_id tier \<and> status c = CONFIRMED) (contributions s)))"
  shows "\<exists>msg. createIntent e s tid sid = (Inl (ConflictException msg), s)"
  using assms
  by (simp add: createIntent_def getTierById_def assertCapacityAvailable_def confirmedCount_None)

text \<open>
  Claim C5: a successful \<^verbatim>\<open>createIntent\<close> found the tier; the memo of its result is the
  identifier of the new contribution, the amount is the tier's price, the currency is
  \<open>XLM\<close>; the store gains exactly one contribution, with that identifier, the given sponsor
  and tier, status \<open>PENDING\<close>, no transaction hash, and the tier's price as its amount.
\<close>

theorem createIntent_success:
  assumes "createIntent e s tid sid = (Inr intent, s')"
  shows "\<exists>tier c. findTier s tid = Some tier \<and>
           intent_memo intent = contributionId intent \<and>
           intent_amount intent = price tier \<and>
           currency intent = ''XLM'' \<and>
           contributions s' = contributions s @ [c] \<and>
           id_c c = contributionId intent \<and> sponsorId c = sid \<and> tierId c = tid \<and>
           status c = PENDING \<and> transactionHash c = None \<and> amount c = price tier"
  using assms
  by (auto simp: createIntent_def getTierById_def assertCapacityAvailable_def auditLog_def Let_def
           split: option.splits if_splits)

subsection \<open>Confirmation\<close>

text \<open>
  Claim C2: when the transaction, the memo, the pending contribution, the destination, the
  asset and the amount have all passed, step 7 counts the confirmed contributions of the
  contribution's tier other than the contribution itself. If that count is at least
  \<open>maxSponsors\<close>, the call fails with Conflict and the store is returned unchanged, so the
  contribution stays \<open>PENDING\<close> and no field of it changes; otherwise the call commits.
\<close>

theorem confirm_capacity_recheck:
  assumes "getTransaction e h = Some txr" and "memo txr = MemoString m" and "m \<noteq> []"
      and "findOnePending s m = Some (c, Some t)"
      and "find (\<lambda>op. op_to op = escrowWallet e) (resolvePaymentOperations e txr) = Some op"
      and "validateOperation e s c op = None"
  shows "if maxSponsors t \<le> int (length (filter (\<lambda>r. tierId r = tier_id t \<and> status r = CONFIRMED \<and> id_c r \<noteq> id_c c) (contributions s)))
         then \<exists>msg. confirmContribution e s h = (Inl (ConflictException msg), s)
         else \<exists>c' s'. confirmContribution e s h = (Inr c', s')"
proof -
  from assms(4) have idc: "id_c c = m" by (simp add: findOnePending_Some)
  from assms(5) have ne: "resolvePaymentOperations e txr \<noteq> []" by auto
  have v: "validateTransaction e s h = Inr (c, Some t)"
    using assms ne by (simp add: validateTransaction_def memoValue_def)
  show ?thesis
    using assms(3) idc
    by (simp add: confirmContribution_def v recheckAndCommit_def recheckCapacity_def
          assertCapacityAvailable_def confirmedCount_Some commitConfirmed_def Let_def)
qed

lemma markFailed_rows:
  "c \<in> set (contributions s) \<Longrightarrow>
     contributions (markFailed s c r) =
       map (\<lambda>x. if id_c x = id_c c then c\<lparr>status := FAILED\<rparr> else x) (contributions s)"
  by (simp add: markFailed_def save_def auditLog_def Let_def)

lemma markFailed_audit:
  "audit (markFailed s c r) =
     audit s @ [\<lparr>action = PAYMENT_FAILED, userId = sponsorId c, resourceId = id_c c, meta = FailedMeta r\<rparr>]"
  by (simp add: markFailed_def save_def auditLog_def Let_def)

lemma markFailed_tiers: "tiers (markFailed s c r) = tiers s"
  by (simp add: markFailed_def save_def auditLog_def Let_def)

lemma markFailed_recorded:
  assumes "c \<in> set (contributions s)"
  shows "recordedFailed (markFailed s c r) c r"
  using assms
  by (auto simp: recordedFailed_def markFailed_rows markFailed_audit)

lemma validate_found:
  assumes "getTransaction e h = Some txr" and "memo txr = MemoString m" and "m \<noteq> []"
      and "findOnePending s m = Some (c, tier)"
  shows "validateTransaction e s h =
     (let ops = resolvePaymentOperations e txr in
      if ops = []
      then Inl (BadRequestException ''Transaction contains no payment operations.'',
                markFailed s c ''No payment operations in transaction.'')
      else (case find (\<lambda>op. op_to op = escrowWallet e) ops of
              None \<Rightarrow> Inl (BadRequestException ''Payment destination does not match the escrow wallet.'',
                           markFailed s c (''Incorrect destination. Expected '' @ escrowWallet e @ ''.''))
            | Some matchingOp \<Rightarrow>
                (case validateOperation e s c matchingOp of
                   Some failure \<Rightarrow> Inl failure
                 | None \<Rightarrow> Inr (c, tier))))"
  using assms by (simp add: validateTransaction_def memoValue_def)


text \<open>
  An amount that \<^verbatim>\<open>parseFloat\<close> cannot read is \<^verbatim>\<open>NaN\<close>; the comparison
  \<^verbatim>\<open>Math.abs(NaN - x) > 0.0000001\<close> is false, so step 6 raises nothing.
\<close>

lemma amount_check_nan:
  assumes "toUpperCase (if asset_type op = ''native'' then ''XLM''
                        else (case asset_code op of None \<Rightarrow> [] | Some a \<Rightarrow> a)) \<in> set SUPPORTED_ASSETS"
      and "parseFloat e (op_amount op) = NaN \<or> parseFloat e (amount c) = NaN"
  shows "validateOperation e s c op = None"
proof -
  have "\<not> jsGt (jsAbs (jsSub x y)) z" if "x = NaN \<or> y = NaN" for x y z
    using that by (cases x; cases y) auto
  with assms show ?thesis
    by (simp add: validateOperation_def Let_def)
qed

text \<open>
  Claim C6: for a transaction whose memo passed step 2, the call fails with NotFound
  exactly when no contribution has the memo as its identifier and status \<open>PENDING\<close>
  (whether there is none with that identifier, or it is already confirmed or failed);
  the store is then unchanged. After a successful confirmation, confirming the same
  transaction again fails with NotFound.
\<close>

theorem confirm_correlation:
  assumes "getTransaction e h = Some txr" and "memo txr = MemoString m" and "m \<noteq> []"
  shows "((\<exists>msg. fst (confirmContribution e s h) = Inl (NotFoundException msg)) \<longleftrightarrow>
            \<not> (\<exists>c \<in> set (contributions s). id_c c = m \<and> status c = PENDING))
       \<and> (\<not> (\<exists>c \<in> set (contributions s). id_c c = m \<and> status c = PENDING) \<longrightarrow>
            confirmContribution e s h =
              (Inl (NotFoundException (''No pending contribution found for memo \"'' @ m @ ''\".'')), s))
       \<and> (\<forall>c s'. confirmContribution e s h = (Inr c, s') \<longrightarrow>
            (\<exists>msg. confirmContribution e s' h = (Inl (NotFoundException msg), s')))"
proof -
  have none: "confirmContribution e s' h =
        (Inl (NotFoundException (''No pending contribution found for memo \"'' @ m @ ''\".'')), s')"
    if "findOnePending s' m = None" for s'
    using assms that by (simp add: confirmContribution_def validateTransaction_def memoValue_def)
  have some: "\<not> (\<exists>msg. fst (confirmContribution e s h) = Inl (NotFoundException msg))"
    if f: "findOnePending s m = Some (c, tier)" for c tier
    by (auto simp: confirmContribution_def validate_found[OF assms f] Let_def
          validateOperation_def recheckAndCommit_def recheckCapacity_def
          assertCapacityAvailable_def commitConfirmed_def
          split: option.splits if_splits sum.splits prod.splits)
  have a: "(\<exists>msg. fst (confirmContribution e s h) = Inl (NotFoundException msg)) \<longleftrightarrow>
            \<not> (\<exists>c \<in> set (contributions s). id_c c = m \<and> status c = PENDING)"
  proof (cases "findOnePending s m")
    case None
    then show ?thesis using none[OF None] by (simp add: findOnePending_None)
  next
    case (Some p)
    obtain c tier where p: "p = (c, tier)" by (cases p)
    from Some p have f: "findOnePending s m = Some (c, tier)" by simp
    from f have "\<exists>c \<in> set (contributions s). id_c c = m \<and> status c = PENDING"
      using findOnePending_Some by blast
    then show ?thesis using some[OF f] by simp
  qed
  have b: "\<not> (\<exists>c \<in> set (contributions s). id_c c = m \<and> status c = PENDING) \<longrightarrow>
            confirmContribution e s h =
              (Inl (NotFoundException (''No pending contribution found for memo \"'' @ m @ ''\".'')), s)"
    using none[of s] by (simp add: findOnePending_None)
  have c: "\<exists>msg. confirmContribution e s' h = (Inl (NotFoundException msg), s')"
    if ok: "confirmContribution e s h = (Inr c, s')" for c s'
  proof -
    obtain c0 tier where f: "findOnePending s m = Some (c0, tier)"
      using ok none[of s] by (cases "findOnePending s m") auto
    from f have c0: "c0 \<in> set (contributions s)" "id_c c0 = m"
      by (simp_all add: findOnePending_Some)
    have s': "contributions s' =
        map (\<lambda>r. if id_c r = m then c0\<lparr>transactionHash := Some h, status := CONFIRMED\<rparr> else r) (contributions s)"
      using ok c0
      by (auto simp: confirmContribution_def validate_found[OF assms f] Let_def
            recheckAndCommit_def commitConfirmed_def save_def auditLog_def
            split: option.splits if_splits sum.splits prod.splits)
    have "findOnePending s' m = None"
      by (auto simp: findOnePending_None s')
    then show ?thesis using none by blast
  qed
  from a b c show ?thesis by blast
qed

lemma validateOperation_not_memoMissing:
  "validateOperation e s c op = Some (err, s') \<Longrightarrow> err \<noteq> BadRequestException memoMissing"
  by (auto simp: validateOperation_def memoMissing_def Let_def split: if_splits)

lemma recheckAndCommit_not_BadRequest:
  "fst (recheckAndCommit e s c tier h) \<noteq> Inl (BadRequestException msg)"
  by (auto simp: recheckAndCommit_def recheckCapacity_def assertCapacityAvailable_def
        commitConfirmed_def Let_def split: option.splits sum.splits if_splits)

text \<open>
  Claim C7, amended: for a transaction the ledger returns, the call fails with the
  BadRequest of the memo stage exactly when the memo is absent, is not a string, or is the
  empty string; on this failure the store is unchanged, so no contribution is looked up,
  marked or touched.
\<close>

theorem confirm_memo_extraction:
  assumes "getTransaction e h = Some txr"
  shows "(fst (confirmContribution e s h) = Inl (BadRequestException memoMissing) \<longleftrightarrow>
            memo txr = MemoUndefined \<or> memo txr = MemoNonString \<or> memo txr = MemoString [])
       \<and> (fst (confirmContribution e s h) = Inl (BadRequestException memoMissing) \<longrightarrow>
            snd (confirmContribution e s h) = s)"
proof (cases "\<exists>m. memo txr = MemoString m \<and> m \<noteq> []")
  case False
  then have "memo txr = MemoUndefined \<or> memo txr = MemoNonString \<or> memo txr = MemoString []"
    by (cases "memo txr") auto
  then show ?thesis
    using assms
    by (auto simp: confirmContribution_def validateTransaction_def memoValue_def)
next
  case True
  then obtain m where m: "memo txr = MemoString m" "m \<noteq> []" by blast
  have "fst (confirmContribution e s h) \<noteq> Inl (BadRequestException memoMissing)"
  proof (cases "findOnePending s m")
    case None
    then show ?thesis
      using assms m by (simp add: confirmContribution_def validateTransaction_def memoValue_def)
  next
    case (Some p)
    obtain c tier where "p = (c, tier)" by (cases p)
    with Some have f: "findOnePending s m = Some (c, tier)" by simp
    show ?thesis
      using validateOperation_not_memoMissing[of e s c] recheckAndCommit_not_BadRequest[of e s c tier h]
      by (auto simp: confirmContribution_def validate_found[OF assms m f] Let_def memoMissing_def
            split: option.splits)
  qed
  then show ?thesis using m by simp
qed

text \<open>
  Claim C8: at the destination stage (a pending contribution was found and the
  transaction has payment operations), the operation used is the first whose destination
  is the escrow wallet: whatever follows it in the list, the outcome is that of the asset
  and amount checks on this one operation, then steps 7 and 8. If no operation has the
  escrow wallet as destination, the contribution is marked \<open>FAILED\<close> with a reason that
  contains the expected wallet, and the call fails with BadRequest.
\<close>

theorem confirm_destination_match:
  assumes "getTransaction e h = Some txr" and "memo txr = MemoString m" and "m \<noteq> []"
      and "findOnePending s m = Some (c, tier)"
      and "resolvePaymentOperations e txr = ops" and "ops \<noteq> []"
  shows "(\<forall>pre op post.
            ops = pre @ op # post \<and> (\<forall>p \<in> set pre. op_to p \<noteq> escrowWallet e) \<and>
            op_to op = escrowWallet e \<longrightarrow>
            confirmContribution e s h =
              (case validateOperation e s c op of
                 Some (err, s') \<Rightarrow> (Inl err, s')
               | None \<Rightarrow> recheckAndCommit e s c tier h))
       \<and> ((\<forall>p \<in> set ops. op_to p \<noteq> escrowWallet e) \<longrightarrow>
            confirmContribution e s h =
              (Inl (BadRequestException ''Payment destination does not match the escrow wallet.''),
               markFailed s c (''Incorrect destination. Expected '' @ escrowWallet e @ ''.''))
            \<and> recordedFailed (snd (confirmContribution e s h)) c
                 (''Incorrect destination. Expected '' @ escrowWallet e @ ''.''))"
proof -
  from assms(4) have cin: "c \<in> set (contributions s)" by (simp add: findOnePending_Some)
  have first: "find (\<lambda>op. op_to op = escrowWallet e) ops = Some op"
    if "ops = pre @ op # post" "\<forall>p \<in> set pre. op_to p \<noteq> escrowWallet e" "op_to op = escrowWallet e"
    for pre op post
    using that by (induction pre arbitrary: ops) auto
  have a: "confirmContribution e s h =
              (case validateOperation e s c op of
                 Some (err, s') \<Rightarrow> (Inl err, s')
               | None \<Rightarrow> recheckAndCommit e s c tier h)"
    if "ops = pre @ op # post" "\<forall>p \<in> set pre. op_to p \<noteq> escrowWallet e" "op_to op = escrowWallet e"
    for pre op post
    using first[OF that] assms(5,6)
    by (auto simp: confirmContribution_def validate_found[OF assms(1-4)] split: option.splits)
  have none: "find (\<lambda>op. op_to op = escrowWallet e) ops = None"
    if "\<forall>p \<in> set ops. op_to p \<noteq> escrowWallet e"
    using that by (simp add: find_None_iff)
  have b: "confirmContribution e s h =
              (Inl (BadRequestException ''Payment destination does not match the escrow wallet.''),
               markFailed s c (''Incorrect destination. Expected '' @ escrowWallet e @ ''.''))"
    if "\<forall>p \<in> set ops. op_to p \<noteq> escrowWallet e"
    using none[OF that] assms(5,6)
    by (simp add: confirmContribution_def validate_found[OF assms(1-4)])
  show ?thesis
    using a b markFailed_recorded[OF cin] by (simp (no_asm_simp))
qed

text \<open>
  Claim C9: when the link to the operations is missing or empty, the fetch rejects, the
  response is not ok, or its body cannot be read, \<^verbatim>\<open>resolvePaymentOperations\<close> returns the
  empty list; the call then marks the located contribution \<open>FAILED\<close> with the reason
  \<^verbatim>\<open>No payment operations in transaction.\<close> and fails with BadRequest.
\<close>

theorem confirm_fetch_failure:
  assumes "getTransaction e h = Some txr" and "memo txr = MemoString m" and "m \<noteq> []"
      and "findOnePending s m = Some (c, tier)"
      and "operationsHref txr = None \<or> operationsHref txr = Some [] \<or>
           (\<exists>href. operationsHref txr = Some href \<and>
              (fetch e href = None \<or>
               (\<exists>res. fetch e href = Some res \<and> (\<not> ok res \<or> json res = None))))"
  shows "resolvePaymentOperations e txr = []
       \<and> confirmContribution e s h =
           (Inl (BadRequestException ''Transaction contains no payment operations.''),
            markFailed s c ''No payment operations in transaction.'')
       \<and> recordedFailed (snd (confirmContribution e s h)) c ''No payment operations in transaction.''"
proof -
  from assms(4) have cin: "c \<in> set (contributions s)" by (simp add: findOnePending_Some)
  have r: "resolvePaymentOperations e txr = []"
    using assms(5) by (auto simp: resolvePaymentOperations_def split: option.splits)
  have cc: "confirmContribution e s h =
           (Inl (BadRequestException ''Transaction contains no payment operations.''),
            markFailed s c ''No payment operations in transaction.'')"
    by (simp add: confirmContribution_def validate_found[OF assms(1-4)] r)
  show ?thesis
    using r cc markFailed_recorded[OF cin] by simp
qed

subsection \<open>Stores reached by completed invocations\<close>

lemma createIntent_rows:
  "contributions (snd (createIntent e s tid sid)) = contributions s \<or>
   (\<exists>t. findTier s tid = Some t \<and>
     contributions (snd (createIntent e s tid sid)) =
       contributions s @ [\<lparr>id_c = generatedId e, sponsorId = sid, tierId = tid, amount = price t,
                            transactionHash = None, status = PENDING, createdAt = now e\<rparr>])"
  by (auto simp: createIntent_def getTierById_def auditLog_def Let_def split: option.splits sum.splits)

lemma createIntent_tiers: "tiers (snd (createIntent e s tid sid)) = tiers s"
  by (auto simp: createIntent_def getTierById_def auditLog_def Let_def split: option.splits sum.splits)

lemma validateOperation_store:
  "validateOperation e s c op = Some (err, s') \<Longrightarrow> \<exists>r. s' = markFailed s c r"
  by (auto simp: validateOperation_def Let_def split: if_splits)

lemma validateTransaction_Inl:
  assumes "validateTransaction e s h = Inl (err, s')"
  shows "s' = s \<or> (\<exists>c r. c \<in> set (contributions s) \<and> status c = PENDING \<and> s' = markFailed s c r)"
proof -
  { fix txr m c tier
    assume tx: "getTransaction e h = Some txr" "memo txr = MemoString m" "m \<noteq> []"
       and f: "findOnePending s m = Some (c, tier)"
    have c: "c \<in> set (contributions s)" "status c = PENDING"
      using f by (simp_all add: findOnePending_Some)
    have "\<exists>r. s' = markFailed s c r"
      using assms validateOperation_store[of e s c]
      by (auto simp: validate_found[OF tx f] Let_def split: if_splits option.splits)
    with c have ?thesis by blast }
  then show ?thesis
    using assms
    by (auto simp: validateTransaction_def memoValue_def split: option.splits memoField.splits if_splits)
qed

lemma validateTransaction_Inr:
  assumes "validateTransaction e s h = Inr (c, tier)"
  shows "c \<in> set (contributions s) \<and> status c = PENDING \<and> id_c c \<noteq> [] \<and> tier = findTier s (tierId c)"
  using assms
  by (auto simp: validateTransaction_def memoValue_def Let_def
        dest: findOnePending_Some
        split: option.splits memoField.splits if_splits)

lemma confirm_outcome:
  "(\<exists>err. confirmContribution e s h = (Inl err, s)) \<or>
   (\<exists>err c r. c \<in> set (contributions s) \<and> status c = PENDING \<and>
        confirmContribution e s h = (Inl err, markFailed s c r)) \<or>
   (\<exists>c t. c \<in> set (contributions s) \<and> status c = PENDING \<and> id_c c \<noteq> [] \<and>
        findTier s (tierId c) = Some t \<and>
        int (confirmedCount s (tier_id t) (Some (id_c c))) < maxSponsors t \<and>
        confirmContribution e s h =
          (Inr (c\<lparr>transactionHash := Some h, status := CONFIRMED\<rparr>),
           snd (commitConfirmed s c h)))"
proof (cases "validateTransaction e s h")
  case (Inl p)
  obtain err s' where "p = (err, s')" by (cases p)
  with Inl have v: "validateTransaction e s h = Inl (err, s')" by simp
  from validateTransaction_Inl[OF v] show ?thesis
    by (auto simp: confirmContribution_def v)
next
  case (Inr p)
  obtain c tier where "p = (c, tier)" by (cases p)
  with Inr have v: "validateTransaction e s h = Inr (c, tier)" by simp
  from validateTransaction_Inr[OF v]
  have c: "c \<in> set (contributions s)" "status c = PENDING" "id_c c \<noteq> []"
    and tier: "tier = findTier s (tierId c)" by simp_all
  show ?thesis
  proof (cases tier)
    case None
    then have "confirmContribution e s h = (Inl TypeError, s)"
      by (simp add: confirmContribution_def v recheckAndCommit_def recheckCapacity_def)
    then show ?thesis by blast
  next
    case (Some t)
    show ?thesis
    proof (cases "int (confirmedCount s (tier_id t) (Some (id_c c))) < maxSponsors t")
      case True
      then have "confirmContribution e s h =
          (Inr (c\<lparr>transactionHash := Some h, status := CONFIRMED\<rparr>), snd (commitConfirmed s c h))"
        using Some
        by (simp add: confirmContribution_def v recheckAndCommit_def recheckCapacity_def
              assertCapacityAvailable_def commitConfirmed_def Let_def)
      moreover have "findTier s (tierId c) = Some t" using tier Some by simp
      ultimately show ?thesis using c True by blast
    next
      case False
      then have "\<exists>err. confirmContribution e s h = (Inl err, s)"
        using Some
        by (simp add: confirmContribution_def v recheckAndCommit_def recheckCapacity_def
              assertCapacityAvailable_def)
      then show ?thesis by blast
    qed
  qed
qed

lemma commitConfirmed_rows:
  "c \<in> set (contributions s) \<Longrightarrow>
     contributions (snd (commitConfirmed s c h)) =
       map (\<lambda>x. if id_c x = id_c c then c\<lparr>transactionHash := Some h, status := CONFIRMED\<rparr> else x)
         (contributions s)"
  by (simp add: commitConfirmed_def save_def auditLog_def Let_def)

lemma commitConfirmed_tiers: "tiers (snd (commitConfirmed s c h)) = tiers s"
  by (simp add: commitConfirmed_def save_def auditLog_def Let_def)

lemma confirm_tiers: "tiers (snd (confirmContribution e s h)) = tiers s"
  using confirm_outcome[of e s h] by (auto simp: markFailed_tiers commitConfirmed_tiers)

lemma replace_ids:
  "id_c c' = id_c c \<Longrightarrow> map (id_c \<circ> (\<lambda>x. if id_c x = id_c c then c' else x)) rows = map id_c rows"
  by (induction rows) auto


lemma storeInv_createIntent:
  assumes "storeInv s" and "generatedId e \<notin> set (map id_c (contributions s))"
  shows "storeInv (snd (createIntent e s tid sid))"
  using createIntent_rows[of e s tid sid] assms
  by (auto simp: storeInv_def)

lemma storeInv_confirm:
  assumes "storeInv s"
  shows "storeInv (snd (confirmContribution e s h))"
proof -
  have d: "distinct (map id_c (contributions s))"
    and t: "\<forall>c \<in> set (contributions s). transactionHash c \<noteq> None \<longrightarrow> status c = CONFIRMED"
    using assms by (simp_all add: storeInv_def)
  { fix c r assume c: "c \<in> set (contributions s)" "status c = PENDING"
    have "storeInv (markFailed s c r)"
      using d t c by (auto simp: storeInv_def markFailed_rows replace_ids) }
  moreover
  { fix c assume c: "c \<in> set (contributions s)"
    have "storeInv (snd (commitConfirmed s c h))"
      using d t c by (auto simp: storeInv_def commitConfirmed_rows replace_ids) }
  ultimately show ?thesis
    using confirm_outcome[of e s h] assms by auto
qed

lemma reachable_storeInv: "reachable s \<Longrightarrow> storeInv s"
proof (induction rule: reachable.induct)
  case (reachable_init s)
  then show ?case by (simp add: storeInv_def)
next
  case (reachable_intent s e tid sid)
  then show ?case by (simp add: storeInv_createIntent)
next
  case (reachable_confirm s e h)
  then show ?case by (simp add: storeInv_confirm)
qed


subsection \<open>Capacity, one invocation after the other\<close>

text \<open>
  When no two invocations overlap, the re-check of step 7 keeps the confirmed contributions
  of every tier within its capacity.
\<close>

lemma replace_split:
  assumes "distinct (map id_c rows)" and "c \<in> set rows"
  obtains pre post where "rows = pre @ c # post"
    and "map (\<lambda>x. if id_c x = id_c c then c' else x) rows = pre @ c' # post"
proof -
  from assms(2) obtain pre post where rows: "rows = pre @ c # post"
    by (auto simp: in_set_conv_decomp)
  with assms(1) have "\<forall>x \<in> set pre. id_c x \<noteq> id_c c" "\<forall>x \<in> set post. id_c x \<noteq> id_c c"
    by (auto simp: image_iff)
  then have "map (\<lambda>x. if id_c x = id_c c then c' else x) pre = pre"
    and "map (\<lambda>x. if id_c x = id_c c then c' else x) post = post"
    by (simp_all add: map_idI)
  with rows have "map (\<lambda>x. if id_c x = id_c c then c' else x) rows = pre @ c' # post"
    by simp
  with rows show ?thesis by (rule that)
qed

lemma count_replace_other:
  assumes "distinct (map id_c rows)" and "c \<in> set rows" and "\<not> P c" and "\<not> P c'"
  shows "length (filter P (map (\<lambda>x. if id_c x = id_c c then c' else x) rows)) = length (filter P rows)"
proof -
  obtain pre post where "rows = pre @ c # post"
    and "map (\<lambda>x. if id_c x = id_c c then c' else x) rows = pre @ c' # post"
    using assms(1,2) by (rule replace_split)
  then show ?thesis using assms(3,4) by (simp only: filter_append filter.simps length_append if_False)
qed

lemma count_replace_new:
  assumes "distinct (map id_c rows)" and "c \<in> set rows" and "\<not> P c" and "P c'"
  shows "length (filter P (map (\<lambda>x. if id_c x = id_c c then c' else x) rows)) = Suc (length (filter P rows))"
proof -
  obtain pre post where "rows = pre @ c # post"
    and "map (\<lambda>x. if id_c x = id_c c then c' else x) rows = pre @ c' # post"
    using assms(1,2) by (rule replace_split)
  then show ?thesis using assms(3,4)
    by (simp only: filter_append filter.simps length_append if_False if_True list.size add_Suc_right)
qed

lemma capacity_sequential:
  assumes "reachable s" and "findTier s tid = Some t"
  shows "int (length (filter (\<lambda>c. tierId c = tid \<and> status c = CONFIRMED) (contributions s)))
           \<le> max 0 (maxSponsors t)"
  using assms
proof (induction arbitrary: t rule: reachable.induct)
  case (reachable_init s)
  then show ?case by simp
next
  case (reachable_intent s e tid' sid)
  from reachable_intent.prems have "findTier s tid = Some t"
    by (simp add: findTier_def createIntent_tiers)
  from reachable_intent.IH[OF this] createIntent_rows[of e s tid' sid]
  show ?case by auto
next
  case (reachable_confirm s e h)
  let ?P = "\<lambda>c. tierId c = tid \<and> status c = CONFIRMED"
  from reachable_confirm.prems have ft: "findTier s tid = Some t"
    by (simp add: findTier_def confirm_tiers)
  note IH = reachable_confirm.IH[OF ft]
  have d: "distinct (map id_c (contributions s))"
    using reachable_storeInv[OF reachable_confirm.hyps] by (simp add: storeInv_def)
  { fix c r assume c: "c \<in> set (contributions s)" "status c = PENDING"
    have "length (filter ?P (contributions (markFailed s c r))) = length (filter ?P (contributions s))"
      unfolding markFailed_rows[OF c(1)]
      by (rule count_replace_other[OF d c(1)]) (simp_all add: c(2)) }
  note failed = this
  { fix c t' assume c: "c \<in> set (contributions s)" "status c = PENDING" "id_c c \<noteq> []"
      and t': "findTier s (tierId c) = Some t'"
      and cap: "int (confirmedCount s (tier_id t') (Some (id_c c))) < maxSponsors t'"
    let ?c' = "c\<lparr>transactionHash := Some h, status := CONFIRMED\<rparr>"
    have "int (length (filter ?P (contributions (snd (commitConfirmed s c h))))) \<le> max 0 (maxSponsors t)"
    proof (cases "tierId c = tid")
      case False
      have "length (filter ?P (contributions (snd (commitConfirmed s c h)))) = length (filter ?P (contributions s))"
        unfolding commitConfirmed_rows[OF c(1)]
        by (rule count_replace_other[OF d c(1)]) (simp_all add: c(2) False)
      then show ?thesis using IH by simp
    next
      case True
      with t' ft have tt: "t' = t" "tier_id t = tid" by (simp_all add: findTier_Some)
      have "length (filter ?P (contributions s)) \<le> confirmedCount s tid (Some (id_c c))"
      proof -
        have "filter ?P (contributions s) =
              filter (\<lambda>r. tierId r = tid \<and> status r = CONFIRMED \<and> id_c r \<noteq> id_c c) (contributions s)"
          using d c(1,2) by (intro filter_cong) (auto simp: distinct_map inj_on_def)
        then show ?thesis using c(3) by (simp add: confirmedCount_Some)
      qed
      with cap tt have "int (length (filter ?P (contributions s))) < maxSponsors t" by simp
      moreover have "length (filter ?P (contributions (snd (commitConfirmed s c h)))) =
                     Suc (length (filter ?P (contributions s)))"
        unfolding commitConfirmed_rows[OF c(1)]
        by (rule count_replace_new[OF d c(1)]) (simp_all add: c(2) True)
      ultimately show ?thesis by simp
    qed }
  note confirmed = this
  show ?case
    using confirm_outcome[of e s h] IH failed confirmed by auto
qed

subsection \<open>Capacity under overlapping confirmations\<close>

text \<open>An invocation scheduled alone is \<^verbatim>\<open>confirmContribution\<close>.\<close>

lemma runSchedule_alone:
  "runSchedule e [0, 0, 0] ([Start h], s) =
     ([Finished (fst (confirmContribution e s h))], snd (confirmContribution e s h))"
  by (auto simp: confirmContribution_def recheckAndCommit_def split: sum.splits prod.splits)

text \<open>
  Claim C1: for a tier with \<open>maxSponsors = N\<close>, no sequence of concurrent \<^verbatim>\<open>createIntent\<close>
  and \<^verbatim>\<open>confirmContribution\<close> invocations leaves more than \<open>N\<close> confirmed contributions
  of the tier; two concurrent confirmations of distinct pending contributions cannot both
  commit when one slot remains.

  The service does not keep this. Two intents on a tier with one slot give \<open>raceStore\<close>.
  The schedule \<open>[0, 1, 0, 1, 0, 1]\<close> lets both confirmations count (step 7) before either
  saves (step 8): each counts zero confirmed rows, both commit, and the tier holds two
  confirmed contributions. Under the schedule \<open>[0, 0, 0, 1, 1, 1]\<close>, one invocation after the
  other, the second fails with Conflict and one contribution is confirmed.
\<close>

theorem confirm_race_oversells:
  "snd (createIntent (ledgerEnv\<lparr>generatedId := ''c-2''\<rparr>)
          (snd (createIntent ledgerEnv emptyStore ''tier-1'' ''alice'')) ''tier-1'' ''bob'') = raceStore
   \<and> maxSponsors goldTier = 1
   \<and> (case runSchedule ledgerEnv [0, 1, 0, 1, 0, 1] ([Start ''tx-1'', Start ''tx-2''], raceStore) of
        (ts, s') \<Rightarrow>
          ts = [Finished (Inr ((pendingOf ''c-1'' ''alice'')\<lparr>transactionHash := Some ''tx-1'', status := CONFIRMED\<rparr>)),
                Finished (Inr ((pendingOf ''c-2'' ''bob'')\<lparr>transactionHash := Some ''tx-2'', status := CONFIRMED\<rparr>))]
          \<and> length (filter (\<lambda>c. tierId c = ''tier-1'' \<and> status c = CONFIRMED) (contributions s')) = 2)
   \<and> (case runSchedule ledgerEnv [0, 0, 0, 1, 1, 1] ([Start ''tx-1'', Start ''tx-2''], raceStore) of
        (ts, s') \<Rightarrow>
          (\<exists>msg. ts ! 1 = Finished (Inl (ConflictException msg)))
          \<and> length (filter (\<lambda>c. tierId c = ''tier-1'' \<and> status c = CONFIRMED) (contributions s')) = 1)"
  by (simp add: scen svc)

section \<open>The properties on the example ledger\<close>

theorem createIntent_at_capacity_witness:
  "findTier fullStore ''tier-1'' = Some goldTier
   \<and> maxSponsors goldTier \<le> int (length (filter (\<lambda>c. tierId c = tier_id goldTier \<and> status c = CONFIRMED)
                                      (contributions fullStore)))
   \<and> (\<exists>msg. createIntent ledgerEnv fullStore ''tier-1'' ''carol'' = (Inl (ConflictException msg), fullStore))"
proof -
  have h1: "findTier fullStore ''tier-1'' = Some goldTier"
    by (simp add: scen findTier_def)
  have h2: "maxSponsors goldTier \<le> int (length (filter (\<lambda>c. tierId c = tier_id goldTier \<and> status c = CONFIRMED)
                                      (contributions fullStore)))"
    by (simp add: scen)
  from createIntent_at_capacity[OF h1 h2, of ledgerEnv "''carol''"] h1 h2 show ?thesis by simp
qed

theorem createIntent_success_witness:
  "createIntent ledgerEnv emptyStore ''tier-1'' ''alice'' =
     (Inr \<lparr>contributionId = ''c-1'', intent_escrowWallet = ''GESCROW'', intent_amount = ''100.0000000'',
           currency = ''XLM'', intent_memo = ''c-1''\<rparr>, pendingStore)
   \<and> (\<exists>tier c. findTier emptyStore ''tier-1'' = Some tier \<and>
         contributions pendingStore = contributions emptyStore @ [c] \<and>
         id_c c = ''c-1'' \<and> status c = PENDING \<and> transactionHash c = None \<and> amount c = price tier)"
proof -
  have h: "createIntent ledgerEnv emptyStore ''tier-1'' ''alice'' =
     (Inr \<lparr>contributionId = ''c-1'', intent_escrowWallet = ''GESCROW'', intent_amount = ''100.0000000'',
           currency = ''XLM'', intent_memo = ''c-1''\<rparr>, pendingStore)"
    by (simp add: scen svc)
  from createIntent_success[OF h] h show ?thesis by auto
qed

theorem confirm_capacity_recheck_witness:
  "getTransaction ledgerEnv ''tx-1'' = Some (txFor ''c-1'' (Some ''ops-exact''))
   \<and> findOnePending fullStore ''c-1'' = Some (pendingOf ''c-1'' ''alice'', Some goldTier)
   \<and> find (\<lambda>op. op_to op = escrowWallet ledgerEnv)
        (resolvePaymentOperations ledgerEnv (txFor ''c-1'' (Some ''ops-exact'')))
       = Some (paymentTo ''GESCROW'' ''100.0000000'')
   \<and> validateOperation ledgerEnv fullStore (pendingOf ''c-1'' ''alice'') (paymentTo ''GESCROW'' ''100.0000000'') = None
   \<and> (\<exists>msg. confirmContribution ledgerEnv fullStore ''tx-1'' = (Inl (ConflictException msg), fullStore))"
proof -
  have h1: "getTransaction ledgerEnv ''tx-1'' = Some (txFor ''c-1'' (Some ''ops-exact''))"
    by (simp add: scen)
  have h2: "memo (txFor ''c-1'' (Some ''ops-exact'')) = MemoString ''c-1''"
    by (simp add: scen)
  have h3: "''c-1'' \<noteq> []" by simp
  have h4: "findOnePending fullStore ''c-1'' = Some (pendingOf ''c-1'' ''alice'', Some goldTier)"
    by (simp add: scen findOnePending_def findTier_def)
  have h5: "find (\<lambda>op. op_to op = escrowWallet ledgerEnv)
        (resolvePaymentOperations ledgerEnv (txFor ''c-1'' (Some ''ops-exact'')))
       = Some (paymentTo ''GESCROW'' ''100.0000000'')"
    by (simp add: scen resolvePaymentOperations_def)
  have h6: "validateOperation ledgerEnv fullStore (pendingOf ''c-1'' ''alice'')
              (paymentTo ''GESCROW'' ''100.0000000'') = None"
    by (simp add: scen svc)
  have full: "maxSponsors goldTier \<le> int (length (filter (\<lambda>r. tierId r = tier_id goldTier \<and>
                  status r = CONFIRMED \<and> id_c r \<noteq> id_c (pendingOf ''c-1'' ''alice'')) (contributions fullStore)))"
    by (simp add: scen)
  from confirm_capacity_recheck[OF h1 h2 h3 h4 h5 h6] full h1 h4 h5 h6 show ?thesis by simp
qed

lemma tx1_found:
  "getTransaction ledgerEnv ''tx-1'' = Some (txFor ''c-1'' (Some ''ops-exact''))"
  "memo (txFor m href) = MemoString m"
  "''c-1'' \<noteq> []"
  by (simp_all add: scen)


theorem confirm_correlation_witness:
  "getTransaction ledgerEnv ''tx-1'' = Some (txFor ''c-1'' (Some ''ops-exact''))
   \<and> (\<exists>c s'. confirmContribution ledgerEnv pendingStore ''tx-1'' = (Inr c, s') \<and>
         (\<exists>msg. confirmContribution ledgerEnv s' ''tx-1'' = (Inl (NotFoundException msg), s')))
   \<and> confirmContribution ledgerEnv emptyStore ''tx-1'' =
        (Inl (NotFoundException ''No pending contribution found for memo \"c-1\".''), emptyStore)"
proof -
  have ok: "\<exists>c s'. confirmContribution ledgerEnv pendingStore ''tx-1'' = (Inr c, s')"
    by (simp add: scen svc)
  have no: "\<not> (\<exists>c \<in> set (contributions emptyStore). id_c c = ''c-1'' \<and> status c = PENDING)"
    by (simp add: scen)
  from confirm_correlation[OF tx1_found, of pendingStore] confirm_correlation[OF tx1_found, of emptyStore]
    ok no tx1_found(1)
  show ?thesis by auto
qed

text \<open>
  Claim C7 says that the memo stage fails with BadRequest exactly when the memo is absent
  or not a string. The test of the source is \<^verbatim>\<open>!memoValue\<close>, which also holds for the
  empty string: a transaction whose memo is the empty string fails at the memo stage.
\<close>

theorem memo_empty_string_counterexample:
  "getTransaction ledgerEnv ''tx-blank'' = Some (txFor [] (Some ''ops-exact''))
   \<and> \<not> (fst (confirmContribution ledgerEnv pendingStore ''tx-blank'') = Inl (BadRequestException memoMissing)
          \<longleftrightarrow> memo (txFor [] (Some ''ops-exact'')) = MemoUndefined
               \<or> memo (txFor [] (Some ''ops-exact'')) = MemoNonString)"
  by (simp add: scen svc)

theorem confirm_memo_extraction_witness:
  "getTransaction ledgerEnv ''tx-blank'' = Some (txFor [] (Some ''ops-exact''))
   \<and> confirmContribution ledgerEnv pendingStore ''tx-blank'' = (Inl (BadRequestException memoMissing), pendingStore)
   \<and> getTransaction ledgerEnv ''tx-1'' = Some (txFor ''c-1'' (Some ''ops-exact''))
   \<and> fst (confirmContribution ledgerEnv pendingStore ''tx-1'') \<noteq> Inl (BadRequestException memoMissing)"
proof -
  have h: "getTransaction ledgerEnv ''tx-blank'' = Some (txFor [] (Some ''ops-exact''))"
    by (simp add: scen)
  have m: "memo (txFor [] (Some ''ops-exact'')) = MemoString []"
    "memo (txFor ''c-1'' (Some ''ops-exact'')) = MemoString ''c-1''"
    by (simp_all add: scen)
  from confirm_memo_extraction[OF h, of pendingStore] confirm_memo_extraction[OF tx1_found(1), of pendingStore]
    h m tx1_found(1)
  show ?thesis by (auto simp: prod_eq_iff)
qed

theorem confirm_destination_match_witness:
  "findOnePending pendingStore ''c-1'' = Some (pendingOf ''c-1'' ''alice'', Some goldTier)
   \<and> resolvePaymentOperations ledgerEnv (txFor ''c-1'' (Some ''ops-multi'')) =
        [paymentTo ''GOTHER'' ''100.0000000''] @ paymentTo ''GESCROW'' ''100.0000000''
          # [paymentTo ''GESCROW'' ''999.0000000'']
   \<and> op_to (paymentTo ''GOTHER'' ''100.0000000'') \<noteq> escrowWallet ledgerEnv
   \<and> op_to (paymentTo ''GESCROW'' ''100.0000000'') = escrowWallet ledgerEnv
   \<and> confirmContribution ledgerEnv pendingStore ''tx-multi'' =
       (case validateOperation ledgerEnv pendingStore (pendingOf ''c-1'' ''alice'')
               (paymentTo ''GESCROW'' ''100.0000000'') of
          Some (err, s') \<Rightarrow> (Inl err, s')
        | None \<Rightarrow> recheckAndCommit ledgerEnv pendingStore (pendingOf ''c-1'' ''alice'') (Some goldTier) ''tx-multi'')
   \<and> (\<exists>c s'. confirmContribution ledgerEnv pendingStore ''tx-multi'' = (Inr c, s'))
   \<and> confirmContribution (ledgerEnv\<lparr>escrowWallet := ''GNOBODY''\<rparr>) pendingStore ''tx-multi'' =
       (Inl (BadRequestException ''Payment destination does not match the escrow wallet.''),
        markFailed pendingStore (pendingOf ''c-1'' ''alice'') ''Incorrect destination. Expected GNOBODY.'')"
proof -
  let ?c = "pendingOf ''c-1'' ''alice''"
  let ?ops = "[paymentTo ''GOTHER'' ''100.0000000''] @ paymentTo ''GESCROW'' ''100.0000000''
          # [paymentTo ''GESCROW'' ''999.0000000'']"
  let ?e' = "ledgerEnv\<lparr>escrowWallet := ''GNOBODY''\<rparr>"
  have h1: "getTransaction ledgerEnv ''tx-multi'' = Some (txFor ''c-1'' (Some ''ops-multi''))"
    and h1': "getTransaction ?e' ''tx-multi'' = Some (txFor ''c-1'' (Some ''ops-multi''))"
    by (simp_all add: scen)
  have h4: "findOnePending pendingStore ''c-1'' = Some (?c, Some goldTier)"
    by (simp add: scen findOnePending_def findTier_def)
  have h5: "resolvePaymentOperations ledgerEnv (txFor ''c-1'' (Some ''ops-multi'')) = ?ops"
    and h5': "resolvePaymentOperations ?e' (txFor ''c-1'' (Some ''ops-multi'')) = ?ops"
    by (simp_all add: scen resolvePaymentOperations_def)
  have h6: "?ops \<noteq> []" by simp
  have pre: "\<forall>p \<in> set [paymentTo ''GOTHER'' ''100.0000000'']. op_to p \<noteq> escrowWallet ledgerEnv"
    and hit: "op_to (paymentTo ''GESCROW'' ''100.0000000'') = escrowWallet ledgerEnv"
    and miss: "\<forall>p \<in> set ?ops. op_to p \<noteq> escrowWallet ?e'"
    and w: "escrowWallet ?e' = ''GNOBODY''"
    by (simp_all add: scen)
  have ok: "\<exists>c s'. (case validateOperation ledgerEnv pendingStore ?c (paymentTo ''GESCROW'' ''100.0000000'') of
          Some (err, s') \<Rightarrow> (Inl err, s')
        | None \<Rightarrow> recheckAndCommit ledgerEnv pendingStore ?c (Some goldTier) ''tx-multi'') = (Inr c, s')"
    by (simp add: scen svc)
  from confirm_destination_match[OF h1 tx1_found(2,3) h4 h5 h6] pre hit
  have a: "confirmContribution ledgerEnv pendingStore ''tx-multi'' =
       (case validateOperation ledgerEnv pendingStore ?c (paymentTo ''GESCROW'' ''100.0000000'') of
          Some (err, s') \<Rightarrow> (Inl err, s')
        | None \<Rightarrow> recheckAndCommit ledgerEnv pendingStore ?c (Some goldTier) ''tx-multi'')"
    by blast
  from confirm_destination_match[OF h1' tx1_found(2,3) h4 h5' h6] miss
  have b: "confirmContribution ?e' pendingStore ''tx-multi'' =
       (Inl (BadRequestException ''Payment destination does not match the escrow wallet.''),
        markFailed pendingStore ?c (''Incorrect destination. Expected '' @ escrowWallet ?e' @ ''.''))"
    by blast
  from a b ok h4 h5 pre hit w show ?thesis by simp
qed

theorem confirm_fetch_failure_witness:
  "getTransaction ledgerEnv ''tx-nolink'' = Some (txFor ''c-1'' None)
   \<and> findOnePending pendingStore ''c-1'' = Some (pendingOf ''c-1'' ''alice'', Some goldTier)
   \<and> operationsHref (txFor ''c-1'' None) = None
   \<and> confirmContribution ledgerEnv pendingStore ''tx-nolink'' =
       (Inl (BadRequestException ''Transaction contains no payment operations.''),
        markFailed pendingStore (pendingOf ''c-1'' ''alice'') ''No payment operations in transaction.'')
   \<and> contributions (snd (confirmContribution ledgerEnv pendingStore ''tx-nolink'')) =
       [(pendingOf ''c-1'' ''alice'')\<lparr>status := FAILED\<rparr>]"
proof -
  let ?c = "pendingOf ''c-1'' ''alice''"
  have h1: "getTransaction ledgerEnv ''tx-nolink'' = Some (txFor ''c-1'' None)"
    by (simp add: scen)
  have h4: "findOnePending pendingStore ''c-1'' = Some (?c, Some goldTier)"
    by (simp add: scen findOnePending_def findTier_def)
  have h5: "operationsHref (txFor ''c-1'' None) = None"
    by (simp add: scen)
  have rows: "contributions (markFailed pendingStore ?c ''No payment operations in transaction.'') =
                [?c\<lparr>status := FAILED\<rparr>]"
    by (simp add: scen svc)
  from confirm_fetch_failure[OF h1 tx1_found(2,3) h4 disjI1[OF h5]] h1 h4 h5 rows
  show ?thesis by simp
qed



end
